theory Spec2Isabelle
  imports Main "HOL-Library.Sublist" "HOL-Library.Multiset"
begin

section \<open>The chat bot of \<open>bot.go\<close>\<close>

text \<open>
  A shallow embedding of \<open>bot.go\<close>: the \<open>Bot\<close> struct, the functions of Go's
  \<open>strings\<close> package that the program calls, the rate-limited sender \<open>Message\<close>,
  the moderator check, the three punishment functions, \<open>ParseCommand\<close>, the body of
  the read loop of \<open>main\<close> and the body of the loop of \<open>ConsoleInput\<close>.

  Strings are byte lists, as Go's are. A run-time panic of the Go program (an index
  out of range) is a value of the type \<open>halt\<close>; so is \<open>os.Exit\<close>.
  What the program prints on its own terminal with \<open>fmt.Printf\<close> is not part of the
  model: only what it does to the connection is.
\<close>

subsection \<open>The functions of package \<open>strings\<close>\<close>

text \<open>\<open>strings.HasPrefix(s, p)\<close>.\<close>

definition HasPrefix :: "'a list \<Rightarrow> 'a list \<Rightarrow> bool" where
  "HasPrefix s p = prefix p s"

text \<open>\<open>strings.Contains(s, sub)\<close>: \<open>sub\<close> occurs in \<open>s\<close> at some position.\<close>

fun Contains :: "string \<Rightarrow> string \<Rightarrow> bool" where
  "Contains [] sub = (sub = [])"
| "Contains (c # cs) sub = (prefix sub (c # cs) \<or> Contains cs sub)"

text \<open>
  \<open>strings.Replace(s, old, new, 1)\<close>: the leftmost occurrence of \<open>old\<close> is replaced,
  and \<open>s\<close> is returned as it is when there is none. The program calls \<open>Replace\<close> with
  the count 1 only.
\<close>

fun Replace1 :: "string \<Rightarrow> string \<Rightarrow> string \<Rightarrow> string" where
  "Replace1 [] old new = (if old = [] then new else [])"
| "Replace1 (c # cs) old new =
     (if prefix old (c # cs) then new @ drop (length old) (c # cs)
      else c # Replace1 cs old new)"

text \<open>
  \<open>strings.Split(s, sep)\<close> for a separator that is not empty: \<open>s\<close> is cut at the
  occurrences of \<open>sep\<close>, found from the left and not overlapping; the result has one
  more element than there are cuts, so it is never empty. \<open>splitFrom sep acc s\<close>
  carries the bytes of the current piece, reversed, in \<open>acc\<close>. Every separator of the
  program is a literal that is not empty, or a literal followed by the channel name;
  for the empty separator Go cuts after every UTF-8 sequence, which the model writes as
  a cut after every byte.
\<close>

function splitFrom :: "string \<Rightarrow> string \<Rightarrow> string \<Rightarrow> string list" where
  "splitFrom sep acc [] = [rev acc]"
| "splitFrom sep acc (c # cs) =
     (if sep \<noteq> [] \<and> prefix sep (c # cs)
      then rev acc # splitFrom sep [] (drop (length sep - 1) cs)
      else splitFrom sep (c # acc) cs)"
  by pat_completeness auto
termination
  by (relation "measure (\<lambda>(sep, acc, s). length s)") auto

definition Split :: "string \<Rightarrow> string \<Rightarrow> string list" where
  "Split s sep = (if sep = [] then map (\<lambda>c. [c]) s else splitFrom sep [] s)"

text \<open>
  \<open>strings.ToLower(s)\<close> lower-cases the code points of \<open>s\<close>. The program looks at
  the result only to see whether it begins with one of six ASCII literals, so the model
  keeps of each code point of the result what that needs: the byte, when the code point
  is in ASCII (\<open>Ascii\<close>), and nothing but a mark when it is not (\<open>Beyond\<close>).
  An ASCII byte of \<open>s\<close> is a code point by itself wherever it stands; Go maps
  \<open>A\<close>..\<open>Z\<close> to \<open>a\<close>..\<open>z\<close> and keeps the others. Two code points outside ASCII
  have a lower case in ASCII: U+0130, the bytes C4 B0, becomes \<open>i\<close>, and U+212A, the
  bytes E2 84 AA, becomes \<open>k\<close>. The lower case of every other code point outside
  ASCII is outside ASCII, and a byte that is not valid UTF-8 becomes U+FFFD; the model
  puts one mark for each of their bytes.
\<close>

datatype lowered = Ascii char | Beyond

definition lowerByte :: "char \<Rightarrow> char" where
  "lowerByte c =
     (case map_of (zip ''ABCDEFGHIJKLMNOPQRSTUVWXYZ'' ''abcdefghijklmnopqrstuvwxyz'') c of
        None \<Rightarrow> c
      | Some d \<Rightarrow> d)"

function ToLower :: "string \<Rightarrow> lowered list" where
  "ToLower [] = []"
| "ToLower (c # cs) =
     (if prefix [CHR 0xC4, CHR 0xB0] (c # cs) then Ascii CHR ''i'' # ToLower (drop 1 cs)
      else if prefix [CHR 0xE2, CHR 0x84, CHR 0xAA] (c # cs)
      then Ascii CHR ''k'' # ToLower (drop 2 cs)
      else if digit7 c then Beyond # ToLower cs
      else Ascii (lowerByte c) # ToLower cs)"
  by pat_completeness auto
termination
  by (relation "measure length") auto

text \<open>The line terminator \<open>"\r\n"\<close>.\<close>

definition CRLF :: string where
  "CRLF = [CHR 0x0D, CHR 0x0A]"

subsection \<open>The \<open>Bot\<close> struct\<close>

text \<open>
  The program writes to the connection in two ways. \<open>bot.conn.Write([]byte(s))\<close>
  writes the bytes of \<open>s\<close>. \<open>fmt.Fprintf(bot.conn, s)\<close>, which has no operand after
  the format \<open>s\<close>, writes the bytes of \<open>s\<close> as well, unless \<open>s\<close> contains the byte
  \<open>%\<close>, which \<open>Fprintf\<close> reads as the beginning of a verb.
\<close>

datatype wire = Write string | Fprintf string

text \<open>
  \<open>bytes w\<close> is what the write \<open>w\<close> puts on the connection. The verbs of
  \<open>Fprintf\<close> are not modelled: for a format with a \<open>%\<close> the bytes are not given.
\<close>

fun bytes :: "wire \<Rightarrow> string option" where
  "bytes (Write s) = Some s"
| "bytes (Fprintf s) = (if CHR ''%'' \<in> set s then None else Some s)"

text \<open>
  The fields are those of the struct, in its order. \<open>conn\<close> is the connection, seen
  from the program: the list of the writes made to it so far, each with the time of the
  write. \<open>mods\<close> and \<open>userLastMsg\<close> are Go maps. The last field,
  \<open>now\<close>, is not a field of the struct: it is the wall clock that \<open>time.Now().Unix()\<close>
  reads, in seconds. The times are Go's \<open>int64\<close>; they are far from its bounds
  (\<open>lastMsg\<close> is 0 or a reading of the clock, \<open>maxMsgTime\<close> is 3), so they are
  integers here.
\<close>

record Bot =
  server :: string
  port :: string
  nickname :: string
  channel :: string
  automsg :: string
  autoMsgCount :: int
  conn :: "(int \<times> wire) list"
  mods :: "string \<rightharpoonup> bool"
  userLastMsg :: "string \<rightharpoonup> int"
  lastMsg :: int
  maxMsgTime :: int
  userMaxLastMsg :: int
  now :: int

subsection \<open>Panics and indexing\<close>

text \<open>
  \<open>xs[i]\<close> on a Go slice panics with "index out of range" when \<open>i\<close> is not below
  \<open>len(xs)\<close>. \<open>Exit b\<close> is \<open>os.Exit(0)\<close>, reached in the state \<open>b\<close>.
\<close>

datatype halt = IndexOutOfRange | Exit Bot

definition index :: "'a list \<Rightarrow> nat \<Rightarrow> halt + 'a" where
  "index xs i = (if i < length xs then Inr (xs ! i) else Inl IndexOutOfRange)"

text \<open>\<open>NewBot()\<close>, called when the clock reads \<open>t\<close>.\<close>

definition NewBot :: "int \<Rightarrow> Bot" where
  "NewBot t =
     \<lparr> server = ''irc.twitch.tv'',
       port = ''6667'',
       nickname = ''adefault'',
       channel = ''adefault'',
       automsg = ''This is a default test automessage'',
       autoMsgCount = 5,
       conn = [],
       mods = Map.empty,
       userLastMsg = Map.empty,
       lastMsg = 0,
       maxMsgTime = 3,
       userMaxLastMsg = 2,
       now = t \<rparr>"

subsection \<open>\<open>Message\<close>: the rate-limited sender\<close>

text \<open>
  \<open>connWrite b w\<close> makes the write \<open>w\<close> to the connection. \<open>privmsg chan message\<close>
  is the write that \<open>Message\<close> makes,
  \<open>fmt.Fprintf(bot.conn, "PRIVMSG "+bot.channel+" :"+message+"\r\n")\<close>.
  \<open>Sleep d b\<close> is
  \<open>time.Sleep(d * time.Second)\<close>: the clock moves on by \<open>d\<close> seconds. In \<open>Message\<close>
  the two readings of the clock in the sending branch (the test and the assignment of
  \<open>lastMsg\<close>) give the same second.
\<close>

definition connWrite :: "Bot \<Rightarrow> wire \<Rightarrow> Bot" where
  "connWrite b w = b\<lparr>conn := conn b @ [(now b, w)]\<rparr>"

definition Sleep :: "int \<Rightarrow> Bot \<Rightarrow> Bot" where
  "Sleep d b = b\<lparr>now := now b + d\<rparr>"

definition privmsg :: "string \<Rightarrow> string \<Rightarrow> wire" where
  "privmsg chan message = Fprintf (''PRIVMSG '' @ chan @ '' :'' @ message @ CRLF)"

function Message :: "Bot \<Rightarrow> string \<Rightarrow> Bot" where
  "Message b message =
     (if message = [] then b
      else if lastMsg b + maxMsgTime b \<le> now b
      then (connWrite b (privmsg (channel b) message))\<lparr>lastMsg := now b\<rparr>
      else Message (Sleep 5 b) message)"
  by pat_completeness auto
termination
  by (relation "measure (\<lambda>(b, m). nat (lastMsg b + maxMsgTime b - now b))")
     (auto simp: Sleep_def)

declare Message.simps [simp del]

subsection \<open>\<open>isModerator\<close>\<close>

definition isModerator :: "Bot \<Rightarrow> string \<Rightarrow> bool" where
  "isModerator b username =
     (let yourChannel = Replace1 (channel b) ''#'' [] in
      if mods b username = Some True \<or> username = yourChannel then True else False)"

subsection \<open>The punishment functions\<close>

text \<open>
  When the user is a moderator each of them prints on the terminal and returns.
\<close>

definition timeout :: "Bot \<Rightarrow> string \<Rightarrow> Bot" where
  "timeout b username =
     (if isModerator b username then b
      else Message (Message b (''/timeout '' @ username)) (''Timed out user: '' @ username))"

definition ban :: "Bot \<Rightarrow> string \<Rightarrow> Bot" where
  "ban b username =
     (if isModerator b username then b
      else Message (Message b (''/ban '' @ username)) (''Banned user: '' @ username))"

definition unban :: "Bot \<Rightarrow> string \<Rightarrow> Bot" where
  "unban b username =
     (if isModerator b username then b
      else Message (Message b (''/unban '' @ username)) (''Unbanned user: '' @ username))"

subsection \<open>\<open>ParseCommand\<close>\<close>

definition ParseCommand :: "Bot \<Rightarrow> string \<Rightarrow> string \<Rightarrow> halt + Bot" where
  "ParseCommand b user theCommand =
     (if isModerator b user then
        (let command = ToLower theCommand;
             userinfo = Split theCommand '' ''
         in if HasPrefix command (map Ascii '':!timeout'')
               \<or> HasPrefix command (map Ascii ''!timeout'') then
              (case index userinfo 1 of Inl h \<Rightarrow> Inl h | Inr u \<Rightarrow> Inr (timeout b u))
            else if HasPrefix command (map Ascii '':!ban'')
                    \<or> HasPrefix command (map Ascii ''!ban'') then
              (case index userinfo 1 of Inl h \<Rightarrow> Inl h | Inr u \<Rightarrow> Inr (ban b u))
            else if HasPrefix command (map Ascii '':!unban'')
                    \<or> HasPrefix command (map Ascii ''!unban'') then
              (case index userinfo 1 of Inl h \<Rightarrow> Inl h | Inr u \<Rightarrow> Inr (unban b u))
            else Inr b)
      else Inr (Message b (''You are not a mod '' @ user)))"

subsection \<open>\<open>isWebsite\<close>\<close>

definition suffixes :: "string list" where
  "suffixes = [''.com'', ''.net'', ''.org'', ''.tv'', ''.fm'', ''.gg'']"

definition isWebsite :: "string \<Rightarrow> bool" where
  "isWebsite theWebsite = list_ex (\<lambda>suffix. Contains theWebsite suffix) suffixes"

subsection \<open>The read loop of \<open>main\<close>\<close>

text \<open>
  \<open>userOf b line marker\<close> is the user name that the join, part, command and link
  branches take from a line: the line is split at \<open>marker\<close> followed by the channel,
  the piece before it is split at \<open>@\<close>, and the second piece of that is the name.
\<close>

definition userOf :: "Bot \<Rightarrow> string \<Rightarrow> string \<Rightarrow> halt + string" where
  "userOf b line marker =
     (case index (Split line (marker @ channel b)) 0 of
        Inl h \<Rightarrow> Inl h
      | Inr front \<Rightarrow> index (Split front ''@'') 1)"

text \<open>
  \<open>handleLine b line\<close> is one turn of the loop, for a line that \<open>ReadLine\<close> returned
  without an error (\<open>ReadLine\<close> has removed the line terminator).
\<close>

definition handleLine :: "Bot \<Rightarrow> string \<Rightarrow> halt + Bot" where
  "handleLine b line =
     (let msgParts = Split line '' '' in
      case index msgParts 0 of
        Inl h \<Rightarrow> Inl h
      | Inr first \<Rightarrow>
          if first = ''PING'' then
            (case index msgParts 1 of
               Inl h \<Rightarrow> Inl h
             | Inr token \<Rightarrow> Inr (connWrite b (Write (''PONG '' @ token))))
          else if Contains line (''.tmi.twitch.tv JOIN '' @ channel b) then
            (case userOf b line ''.tmi.twitch.tv JOIN '' of
               Inl h \<Rightarrow> Inl h
             | Inr u \<Rightarrow> Inr (Message b (''PogChamp User Joined: '' @ u)))
          else if Contains line (''.tmi.twitch.tv PART '' @ channel b) then
            (case userOf b line ''.tmi.twitch.tv PART '' of
               Inl h \<Rightarrow> Inl h
             | Inr u \<Rightarrow> Inr (Message b (''BibleThump User Left: '' @ u)))
          else
            (case index msgParts 3 of
               Inl h \<Rightarrow> Inl h
             | Inr body \<Rightarrow>
                 if HasPrefix body '':!'' then
                   (case index (Split line (''.tmi.twitch.tv PRIVMSG '' @ channel b)) 1 of
                      Inl h \<Rightarrow> Inl h
                    | Inr rest \<Rightarrow>
                        (case userOf b line ''.tmi.twitch.tv PRIVMSG '' of
                           Inl h \<Rightarrow> Inl h
                         | Inr u \<Rightarrow> ParseCommand b u (Replace1 rest '' :'' [])))
                 else if isWebsite body then
                   (case userOf b line ''.tmi.twitch.tv PRIVMSG '' of
                      Inl h \<Rightarrow> Inl h
                    | Inr u \<Rightarrow> Inr (timeout b u))
                 else Inr b))"

subsection \<open>The loop of \<open>ConsoleInput\<close> and the timer of \<open>Automessage\<close>\<close>

text \<open>\<open>consoleLine b text\<close> is one turn of the loop of \<open>ConsoleInput\<close>.\<close>

definition consoleLine :: "Bot \<Rightarrow> string \<Rightarrow> halt + Bot" where
  "consoleLine b text =
     (if HasPrefix text ''!quit'' then Inl (Exit (Message b ''Shutting down bot :(''))
      else if HasPrefix text ''!'' then ParseCommand b (Replace1 (channel b) ''#'' []) text
      else if text \<noteq> [] then Inr (Message b text)
      else Inr b)"

text \<open>
  What \<open>main\<close> makes of the bot from the flags \<open>channel\<close>, \<open>nickname\<close>,
  \<open>automessage\<close> and \<open>autoMsgCount\<close>.
\<close>

definition mainBot :: "string \<Rightarrow> string \<Rightarrow> string \<Rightarrow> int \<Rightarrow> int \<Rightarrow> Bot" where
  "mainBot channelFlag nicknameFlag automsgFlag autoMsgCountFlag t =
     (if channelFlag \<noteq> [] then
        (NewBot t)\<lparr>nickname := nicknameFlag, channel := ''#'' @ channelFlag,
                   automsg := automsgFlag, autoMsgCount := autoMsgCountFlag\<rparr>
      else NewBot t)"

text \<open>
  The three goroutines give the bot its work: a line from the server, a line from the
  terminal, a turn of \<open>Automessage\<close> (after its sleep of \<open>autoMsgCount\<close> minutes), and
  time that passes with nothing to do. \<open>run\<close> takes the pieces of work one after
  another, each to its end, and stops at the first panic or exit.
\<close>

datatype event = Inbound string | Console string | AutoTimer | Elapse nat

fun step :: "Bot \<Rightarrow> event \<Rightarrow> halt + Bot" where
  "step b (Inbound line) = handleLine b line"
| "step b (Console text) = consoleLine b text"
| "step b AutoTimer = Inr (Message b (automsg b))"
| "step b (Elapse d) = Inr (Sleep (int d) b)"

fun run :: "Bot \<Rightarrow> event list \<Rightarrow> halt + Bot" where
  "run b [] = Inr b"
| "run b (e # es) = (case step b e of Inl h \<Rightarrow> Inl h | Inr b' \<Rightarrow> run b' es)"

text \<open>
  The bot that \<open>main\<close> makes when the program is started without flags (the defaults
  of the flags), at the time \<open>t\<close>.
\<close>

definition defaultBot :: "int \<Rightarrow> Bot" where
  "defaultBot t = mainBot ''ajs94'' ''testbot'' ''This is an automessage message'' 1 t"

subsection \<open>One goroutine that sends again and again\<close>



subsection \<open>Several goroutines in \<open>Message\<close>\<close>

text \<open>
  \<open>main\<close> starts \<open>ConsoleInput\<close> and \<open>Automessage\<close> with \<open>go\<close> and reads the
  connection itself, and all of them call \<open>Message\<close> on the one bot. \<open>Message\<close>
  takes no lock, so another goroutine can run between any two of its statements. A
  \<open>caller\<close> is a goroutine at a call of \<open>Message\<close>: at its entry with a message
  (\<open>Calling\<close>); past the test of the cooldown, which it found over, and before its
  write (\<open>Cleared\<close>); in its \<open>time.Sleep\<close> until the clock reads a given time, after
  which it calls \<open>Message\<close> again with the same message (\<open>Sleeping\<close>); or back
  from it (\<open>Returned\<close>). \<open>advance\<close> is the next step of a caller. A schedule lets
  the goroutine \<open>i\<close> take its next step (\<open>Go i\<close>) or lets time pass (\<open>Pass d\<close>).
  These are some of the interleavings of the Go program: those that switch goroutines
  at the sleep and between the test of the cooldown and the write.
\<close>

datatype caller = Calling string | Cleared string | Sleeping int string | Returned

fun advance :: "Bot \<Rightarrow> caller \<Rightarrow> Bot \<times> caller" where
  "advance b (Calling m) =
     (if m = [] then (b, Returned)
      else if lastMsg b + maxMsgTime b \<le> now b then (b, Cleared m)
      else (b, Sleeping (now b + 5) m))"
| "advance b (Cleared m) =
     ((connWrite b (privmsg (channel b) m))\<lparr>lastMsg := now b\<rparr>, Returned)"
| "advance b (Sleeping t m) = (if t \<le> now b then (b, Calling m) else (b, Sleeping t m))"
| "advance b Returned = (b, Returned)"

datatype sched = Go nat | Pass nat

fun sched_step :: "Bot \<times> caller list \<Rightarrow> sched \<Rightarrow> Bot \<times> caller list" where
  "sched_step (b, cs) (Go i) =
     (if i < length cs
      then (case advance b (cs ! i) of (b', c') \<Rightarrow> (b', cs[i := c']))
      else (b, cs))"
| "sched_step (b, cs) (Pass d) = (Sleep (int d) b, cs)"


subsection \<open>The owner of the channel, in the words of the specification\<close>

text \<open>
  The specification calls owner the channel identifier with its leading \<open>#\<close> removed.
  \<open>isModerator\<close> computes it with \<open>strings.Replace(bot.channel, "#", "", 1)\<close>, which
  removes the first \<open>#\<close> wherever it is.
\<close>

definition ownerName :: "string \<Rightarrow> string" where
  "ownerName chan = (case chan of [] \<Rightarrow> [] | c # cs \<Rightarrow> if c = CHR ''#'' then cs else chan)"

section \<open>Properties\<close>

subsection \<open>What one call of \<open>Message\<close> does\<close>

lemma Message_Nil: "Message b [] = b"
  by (simp add: Message.simps)

lemma Message_ready:
  "m \<noteq> [] \<Longrightarrow> lastMsg b + maxMsgTime b \<le> now b \<Longrightarrow>
   Message b m = (connWrite b (privmsg (channel b) m))\<lparr>lastMsg := now b\<rparr>"
  by (subst Message.simps) simp

lemma Message_wait:
  "m \<noteq> [] \<Longrightarrow> \<not> lastMsg b + maxMsgTime b \<le> now b \<Longrightarrow>
   Message b m = Message (Sleep 5 b) m"
  by (subst Message.simps) simp

text \<open>
  A message that is not empty is written once, after the least number \<open>k\<close> of sleeps of
  five seconds for which the cooldown is over, and \<open>lastMsg\<close> is set to that time.
\<close>

lemma Message_sends:
  assumes "m \<noteq> []"
  shows "\<exists>k. Message b m =
               (connWrite (Sleep (5 * int k) b) (privmsg (channel b) m))
                 \<lparr>lastMsg := now b + 5 * int k\<rparr>
           \<and> lastMsg b + maxMsgTime b \<le> now b + 5 * int k
           \<and> (\<forall>j<k. \<not> lastMsg b + maxMsgTime b \<le> now b + 5 * int j)"
  using assms
proof (induction b m rule: Message.induct)
  case (1 b m)
  show ?case
  proof (cases "lastMsg b + maxMsgTime b \<le> now b")
    case True
    with 1(2) have "Message b m =
        (connWrite (Sleep (5 * int 0) b) (privmsg (channel b) m))\<lparr>lastMsg := now b + 5 * int 0\<rparr>"
      by (simp add: Message_ready Sleep_def connWrite_def)
    with True show ?thesis by (intro exI[of _ 0]) simp
  next
    case False
    from 1(1)[OF 1(2) False 1(2)] obtain k where
      k: "Message (Sleep 5 b) m =
            (connWrite (Sleep (5 * int k) (Sleep 5 b)) (privmsg (channel (Sleep 5 b)) m))
              \<lparr>lastMsg := now (Sleep 5 b) + 5 * int k\<rparr>"
         "lastMsg (Sleep 5 b) + maxMsgTime (Sleep 5 b) \<le> now (Sleep 5 b) + 5 * int k"
         "\<forall>j<k. \<not> lastMsg (Sleep 5 b) + maxMsgTime (Sleep 5 b) \<le> now (Sleep 5 b) + 5 * int j"
      by blast
    have sent: "Message b m =
        (connWrite (Sleep (5 * int (Suc k)) b) (privmsg (channel b) m))
          \<lparr>lastMsg := now b + 5 * int (Suc k)\<rparr>"
      using k(1) 1(2) False by (simp add: Message_wait Sleep_def connWrite_def algebra_simps)
    have over: "lastMsg b + maxMsgTime b \<le> now b + 5 * int (Suc k)"
      using k(2) by (simp add: Sleep_def algebra_simps)
    have least: "\<forall>j<Suc k. \<not> lastMsg b + maxMsgTime b \<le> now b + 5 * int j"
    proof (intro allI impI)
      fix j assume "j < Suc k"
      show "\<not> lastMsg b + maxMsgTime b \<le> now b + 5 * int j"
      proof (cases j)
        case 0
        with False show ?thesis by simp
      next
        case (Suc j')
        with \<open>j < Suc k\<close> have "j' < k" by simp
        with k(3) have
          "\<not> lastMsg (Sleep 5 b) + maxMsgTime (Sleep 5 b) \<le> now (Sleep 5 b) + 5 * int j'"
          by blast
        with Suc show ?thesis by (simp add: Sleep_def algebra_simps)
      qed
    qed
    from sent over least show ?thesis by blast
  qed
qed

subsection \<open>The empty message\<close>

text \<open>
  C8. \<open>Message\<close> with the empty string returns at once: nothing is written to the
  connection, \<open>lastMsg\<close> keeps its value, no time passes, and every other field of
  the bot is as it was.
\<close>

theorem Message_empty_noop: "Message b [] = b"
  by (subst Message.simps) simp

subsection \<open>The moderator check\<close>

lemma Replace1_absent: "c \<notin> set s \<Longrightarrow> Replace1 s [c] [] = s"
  by (induction s) auto

text \<open>
  C9. \<open>isModerator\<close> takes the bot and a name and returns a boolean and nothing else:
  the Go function assigns to nothing and calls neither \<open>Message\<close> nor the connection.
  Its value is true exactly when \<open>mods\<close> maps the name to \<open>true\<close> or the name is the
  owner, the channel identifier without its leading \<open>#\<close>. The channel identifier is
  what \<open>main\<close> or \<open>NewBot\<close> made it: \<open>#\<close> followed by the flag, or the default
  \<open>adefault\<close>, which has no \<open>#\<close>.
\<close>

theorem isModerator_iff:
  assumes "(\<exists>name. channel b = CHR ''#'' # name) \<or> CHR ''#'' \<notin> set (channel b)"
  shows "isModerator b username \<longleftrightarrow>
           (mods b username = Some True \<or> username = ownerName (channel b))"
proof -
  have "Replace1 (channel b) ''#'' [] = ownerName (channel b)"
  proof (cases "\<exists>name. channel b = CHR ''#'' # name")
    case True
    then show ?thesis by (auto simp: ownerName_def)
  next
    case False
    with assms have "CHR ''#'' \<notin> set (channel b)" by blast
    then show ?thesis
      by (cases "channel b") (auto simp: ownerName_def Replace1_absent simp del: Replace1.simps)
  qed
  then show ?thesis by (simp add: isModerator_def)
qed

theorem isModerator_iff_witness:
  "channel (defaultBot 0) = CHR ''#'' # ''ajs94''
   \<and> (isModerator (defaultBot 0) ''ajs94'' \<longleftrightarrow>
        (mods (defaultBot 0) ''ajs94'' = Some True
           \<or> ''ajs94'' = ownerName (channel (defaultBot 0))))"
proof -
  have h: "(\<exists>name. channel (defaultBot 0) = CHR ''#'' # name)
             \<or> CHR ''#'' \<notin> set (channel (defaultBot 0))"
    by (simp add: defaultBot_def mainBot_def NewBot_def)
  have c: "channel (defaultBot 0) = CHR ''#'' # ''ajs94''"
    by (simp add: defaultBot_def mainBot_def NewBot_def)
  from isModerator_iff [OF h] c show ?thesis by blast
qed

subsection \<open>Lines and commands that are too short\<close>

text \<open>
  C1. A line that is no ping, join or part, no command and carries no link should be
  dropped. The loop reads \<open>msgParts[3]\<close> of every line that is no ping, join or part,
  so a line of fewer than four pieces stops the program with a panic. The server's
  \<open>:tmi.twitch.tv RECONNECT\<close> is such a line.
\<close>

theorem short_line_panics:
  "handleLine b '':tmi.twitch.tv RECONNECT'' = Inl IndexOutOfRange"
  by (simp add: handleLine_def Split_def index_def)

text \<open>
  A line of four or more pieces that matches nothing is dropped, as the welcome line of
  the server is.
\<close>

lemma welcome_line_dropped:
  "handleLine (defaultBot t) '':tmi.twitch.tv 001 testbot :Welcome, GLHF!'' = Inr (defaultBot t)"
  by (simp add: defaultBot_def mainBot_def NewBot_def handleLine_def Split_def index_def
      HasPrefix_def isWebsite_def suffixes_def)

text \<open>
  C2. A command of the owner that is the keyword alone should be dropped.
  \<open>ParseCommand\<close> reads \<open>userinfo[1]\<close> without looking at the length of \<open>userinfo\<close>,
  and the program stops with a panic.
\<close>

theorem command_without_target_panics:
  "ParseCommand (defaultBot t) ''ajs94'' ''!timeout'' = Inl IndexOutOfRange
   \<and> ParseCommand (defaultBot t) ''ajs94'' ''!ban'' = Inl IndexOutOfRange
   \<and> ParseCommand (defaultBot t) ''ajs94'' ''!unban'' = Inl IndexOutOfRange"
  by (simp add: defaultBot_def mainBot_def NewBot_def ParseCommand_def isModerator_def
      Split_def index_def lowerByte_def HasPrefix_def)

subsection \<open>The reply to a ping\<close>

text \<open>
  C4. On \<open>PING :tmi.twitch.tv\<close> the loop writes \<open>PONG :tmi.twitch.tv\<close> straight to
  the connection, once, with \<open>conn.Write\<close>, and \<open>Message\<close> is not called. The bytes
  written do not end with \<open>"\r\n"\<close>, with which the write of \<open>Message\<close> and the
  three writes of the handshake in \<open>main\<close> end.
\<close>

theorem pong_without_terminator:
  "handleLine b ''PING :tmi.twitch.tv'' = Inr (connWrite b (Write ''PONG :tmi.twitch.tv''))
   \<and> \<not> suffix CRLF ''PONG :tmi.twitch.tv''"
  by (simp add: handleLine_def Split_def index_def CRLF_def suffix_def)

subsection \<open>Links\<close>

text \<open>
  C5. The loop gives \<open>isWebsite\<close> the piece \<open>msgParts[3]\<close>, the first word of the
  message, and not the message. A link in a later word is not seen: the line of the
  specification's scenario, whose message contains \<open>.com\<close>, leaves the bot as it was,
  with nothing written.
\<close>

theorem link_after_first_word_ignored:
  "Contains ''check out spam.com'' ''.com''
   \<and> handleLine (defaultBot t)
         '':user1!user1@user1.tmi.twitch.tv PRIVMSG #ajs94 :check out spam.com''
       = Inr (defaultBot t)"
  by (simp add: defaultBot_def mainBot_def NewBot_def handleLine_def Split_def index_def
      HasPrefix_def isWebsite_def suffixes_def)

subsection \<open>What \<open>Message\<close> leaves alone, and what it appends\<close>

lemma Message_frame [simp]:
  "channel (Message b m) = channel b"
  "mods (Message b m) = mods b"
  "maxMsgTime (Message b m) = maxMsgTime b"
proof -
  have "channel (Message b m) = channel b \<and> mods (Message b m) = mods b
        \<and> maxMsgTime (Message b m) = maxMsgTime b"
  proof (cases "m = []")
    case True
    then show ?thesis by (simp add: Message_Nil)
  next
    case False
    from Message_sends [OF False, of b] obtain k where
      "Message b m = (connWrite (Sleep (5 * int k) b) (privmsg (channel b) m))
                       \<lparr>lastMsg := now b + 5 * int k\<rparr>"
      by blast
    then show ?thesis by (simp add: connWrite_def Sleep_def)
  qed
  then show "channel (Message b m) = channel b" "mods (Message b m) = mods b"
    "maxMsgTime (Message b m) = maxMsgTime b"
    by simp_all
qed

text \<open>
  A message that is not empty adds one entry to the connection, at a time \<open>t\<close> at
  which the cooldown is over; \<open>lastMsg\<close> and the clock are \<open>t\<close> afterwards.
\<close>

lemma Message_conn:
  assumes "m \<noteq> []"
  shows "\<exists>t. conn (Message b m) = conn b @ [(t, privmsg (channel b) m)]
           \<and> lastMsg (Message b m) = t \<and> now (Message b m) = t
           \<and> lastMsg b + maxMsgTime b \<le> t \<and> now b \<le> t"
proof -
  from Message_sends [OF assms, of b] obtain k where
    k: "Message b m = (connWrite (Sleep (5 * int k) b) (privmsg (channel b) m))
                       \<lparr>lastMsg := now b + 5 * int k\<rparr>"
       "lastMsg b + maxMsgTime b \<le> now b + 5 * int k"
    by blast
  show ?thesis
    by (rule exI[of _ "now b + 5 * int k"]) (use k in \<open>simp add: connWrite_def Sleep_def\<close>)
qed

lemma Message_twice:
  assumes "m1 \<noteq> []" and "m2 \<noteq> []"
  shows "\<exists>t1 t2. conn (Message (Message b m1) m2)
                    = conn b @ [(t1, privmsg (channel b) m1), (t2, privmsg (channel b) m2)]
           \<and> lastMsg b + maxMsgTime b \<le> t1 \<and> t1 + maxMsgTime b \<le> t2"
proof -
  from Message_conn [OF assms(1), of b] obtain t1 where
    t1: "conn (Message b m1) = conn b @ [(t1, privmsg (channel b) m1)]"
        "lastMsg (Message b m1) = t1" "lastMsg b + maxMsgTime b \<le> t1"
    by blast
  from Message_conn [OF assms(2), of "Message b m1"] obtain t2 where
    t2: "conn (Message (Message b m1) m2)
           = conn (Message b m1) @ [(t2, privmsg (channel (Message b m1)) m2)]"
        "lastMsg (Message b m1) + maxMsgTime (Message b m1) \<le> t2"
    by blast
  from t1 t2 show ?thesis by simp
qed

subsection \<open>The moderator set never changes\<close>

text \<open>
  No function of the program assigns to \<open>mods\<close> or to \<open>channel\<close> once \<open>main\<close> has
  set the channel, so every piece of work leaves them as they were.
\<close>

lemma punish_frame [simp]:
  "channel (timeout b u) = channel b" "mods (timeout b u) = mods b"
  "channel (ban b u) = channel b" "mods (ban b u) = mods b"
  "channel (unban b u) = channel b" "mods (unban b u) = mods b"
  by (simp_all add: timeout_def ban_def unban_def)

lemma ParseCommand_frame:
  "ParseCommand b u c = Inr b' \<Longrightarrow> channel b' = channel b \<and> mods b' = mods b"
  by (auto simp: ParseCommand_def Let_def split: if_splits sum.splits)

lemma handleLine_frame:
  "handleLine b line = Inr b' \<Longrightarrow> channel b' = channel b \<and> mods b' = mods b"
  by (auto simp: handleLine_def Let_def connWrite_def split: if_splits sum.splits
      dest: ParseCommand_frame)

lemma consoleLine_frame:
  "consoleLine b text = Inr b' \<Longrightarrow> channel b' = channel b \<and> mods b' = mods b"
  by (auto simp: consoleLine_def split: if_splits dest: ParseCommand_frame)

lemma step_frame:
  "step b e = Inr b' \<Longrightarrow> channel b' = channel b \<and> mods b' = mods b"
  by (cases e) (auto simp: Sleep_def dest: handleLine_frame consoleLine_frame)

lemma run_frame:
  "run b es = Inr b' \<Longrightarrow> channel b' = channel b \<and> mods b' = mods b"
proof (induction es arbitrary: b)
  case Nil
  then show ?case by simp
next
  case (Cons e es)
  then obtain b1 where s: "step b e = Inr b1" and r: "run b1 es = Inr b'"
    by (auto split: sum.splits)
  from step_frame [OF s] Cons.IH [OF r] show ?case by simp
qed

lemma mainBot_channel:
  "channel (mainBot c n a k t) = (if c = [] then ''adefault'' else CHR ''#'' # c)"
  "mods (mainBot c n a k t) = Map.empty"
  by (simp_all add: mainBot_def NewBot_def)

text \<open>
  C10. \<open>NewBot\<close> makes \<open>mods\<close> empty, and in every state that the program reaches
  from the bot of \<open>main\<close>, by any sequence of lines from the server, lines from the
  terminal, automatic messages and waiting, \<open>mods\<close> is still empty and the channel is
  the one \<open>main\<close> set. So \<open>isModerator\<close> is true of the owner and of nobody else, the
  owner being the channel without its leading \<open>#\<close>: the channel flag, or \<open>adefault\<close>
  when the flag is empty. A command of anybody else is answered with the rejection
  message and nothing more.
\<close>

theorem moderators_never_change:
  assumes "run (mainBot c n a k t) es = Inr b"
  shows "mods b = Map.empty
         \<and> channel b = channel (mainBot c n a k t)
         \<and> ownerName (channel b) = (if c = [] then ''adefault'' else c)
         \<and> (\<forall>u. isModerator b u \<longleftrightarrow> u = ownerName (channel b))
         \<and> (\<forall>u cmd. u \<noteq> ownerName (channel b) \<longrightarrow>
               ParseCommand b u cmd = Inr (Message b (''You are not a mod '' @ u)))"
proof -
  from run_frame [OF assms] have fr: "channel b = channel (mainBot c n a k t)" "mods b = Map.empty"
    by (simp_all add: mainBot_channel)
  have own: "ownerName (channel b) = (if c = [] then ''adefault'' else c)"
    by (simp add: fr mainBot_channel ownerName_def)
  have rep: "Replace1 (channel b) ''#'' [] = ownerName (channel b)"
    by (simp add: fr mainBot_channel ownerName_def)
  have im: "\<forall>u. isModerator b u \<longleftrightarrow> u = ownerName (channel b)"
    by (simp add: isModerator_def rep fr(2))
  then have "\<forall>u cmd. u \<noteq> ownerName (channel b) \<longrightarrow>
               ParseCommand b u cmd = Inr (Message b (''You are not a mod '' @ u))"
    by (simp add: ParseCommand_def)
  with fr own im show ?thesis by blast
qed

text \<open>
  C10, for a run of two pieces of work: the terminal sends \<open>hi\<close> to the chat, then
  the user \<open>troll\<close> issues \<open>!ban ajs94\<close> in the chat and is rejected.
\<close>

theorem moderators_never_change_witness:
  "run (mainBot ''ajs94'' ''testbot'' ''auto'' 1 1000)
       [Console ''hi'', Inbound '':troll!troll@troll.tmi.twitch.tv PRIVMSG #ajs94 :!ban ajs94'']
     = Inr ((mainBot ''ajs94'' ''testbot'' ''auto'' 1 1000)
              \<lparr>conn := [(1000, privmsg ''#ajs94'' ''hi''),
                        (1005, privmsg ''#ajs94'' ''You are not a mod troll'')],
               lastMsg := 1005, now := 1005\<rparr>)
   \<and> \<not> isModerator ((mainBot ''ajs94'' ''testbot'' ''auto'' 1 1000)
              \<lparr>conn := [(1000, privmsg ''#ajs94'' ''hi''),
                        (1005, privmsg ''#ajs94'' ''You are not a mod troll'')],
               lastMsg := 1005, now := 1005\<rparr>) ''troll''
   \<and> isModerator ((mainBot ''ajs94'' ''testbot'' ''auto'' 1 1000)
              \<lparr>conn := [(1000, privmsg ''#ajs94'' ''hi''),
                        (1005, privmsg ''#ajs94'' ''You are not a mod troll'')],
               lastMsg := 1005, now := 1005\<rparr>) ''ajs94''"
proof -
  have h: "run (mainBot ''ajs94'' ''testbot'' ''auto'' 1 1000)
       [Console ''hi'', Inbound '':troll!troll@troll.tmi.twitch.tv PRIVMSG #ajs94 :!ban ajs94'']
     = Inr ((mainBot ''ajs94'' ''testbot'' ''auto'' 1 1000)
              \<lparr>conn := [(1000, privmsg ''#ajs94'' ''hi''),
                        (1005, privmsg ''#ajs94'' ''You are not a mod troll'')],
               lastMsg := 1005, now := 1005\<rparr>)"
    by (simp add: mainBot_def NewBot_def consoleLine_def handleLine_def
      ParseCommand_def isModerator_def userOf_def
      Split_def index_def HasPrefix_def Message_ready Message_wait connWrite_def Sleep_def)
  from moderators_never_change [OF h] h show ?thesis by simp
qed

subsection \<open>A keyword with a letter outside ASCII\<close>

text \<open>
  The keyword of a command is recognised by its lower case, code point by code point:
  \<open>!T\<close>, U+0130, \<open>MEOUT troll\<close>, typed by the owner, is a timeout of \<open>troll\<close>.
\<close>

lemma dotted_I_command:
  "ParseCommand (defaultBot t) ''ajs94'' (''!T'' @ [CHR 0xC4, CHR 0xB0] @ ''MEOUT troll'')
     = Inr (timeout (defaultBot t) ''troll'')"
  by (simp add: defaultBot_def mainBot_def NewBot_def ParseCommand_def isModerator_def
      Split_def index_def lowerByte_def HasPrefix_def)

subsection \<open>The punishment functions\<close>

text \<open>
  C6. For each of \<open>timeout\<close>, \<open>ban\<close> and \<open>unban\<close>: when the target is a moderator
  or the owner, the bot is left as it was, so nothing is written to the connection.
  Otherwise exactly two writes are added to the connection, both by \<open>Message\<close>:
  first the directive against the target, the chat line \<open>PRIVMSG\<close>, channel, \<open>:\<close>
  and \<open>/timeout\<close>, \<open>/ban\<close> or \<open>/unban\<close> followed by the name of the target; then
  the confirmation, the chat line with \<open>Timed out user:\<close>, \<open>Banned user:\<close> or
  \<open>Unbanned user:\<close> and the name. The cooldown holds for both: the first is written
  no earlier than \<open>maxMsgTime\<close> after \<open>lastMsg\<close>, the second no earlier than
  \<open>maxMsgTime\<close> after the first. When neither the channel nor the name of the target
  has a \<open>%\<close>, these lines are the bytes on the connection.
\<close>

theorem punishments:
  "(isModerator b u \<longrightarrow> timeout b u = b \<and> ban b u = b \<and> unban b u = b)
   \<and> (\<not> isModerator b u \<longrightarrow>
        (\<exists>t1 t2. conn (timeout b u)
                    = conn b @ [(t1, Fprintf (''PRIVMSG '' @ channel b @ '' :/timeout '' @ u @ CRLF)),
                                (t2, Fprintf (''PRIVMSG '' @ channel b @ '' :Timed out user: '' @ u @ CRLF))]
                \<and> lastMsg b + maxMsgTime b \<le> t1 \<and> t1 + maxMsgTime b \<le> t2)
      \<and> (\<exists>t1 t2. conn (ban b u)
                    = conn b @ [(t1, Fprintf (''PRIVMSG '' @ channel b @ '' :/ban '' @ u @ CRLF)),
                                (t2, Fprintf (''PRIVMSG '' @ channel b @ '' :Banned user: '' @ u @ CRLF))]
                \<and> lastMsg b + maxMsgTime b \<le> t1 \<and> t1 + maxMsgTime b \<le> t2)
      \<and> (\<exists>t1 t2. conn (unban b u)
                    = conn b @ [(t1, Fprintf (''PRIVMSG '' @ channel b @ '' :/unban '' @ u @ CRLF)),
                                (t2, Fprintf (''PRIVMSG '' @ channel b @ '' :Unbanned user: '' @ u @ CRLF))]
                \<and> lastMsg b + maxMsgTime b \<le> t1 \<and> t1 + maxMsgTime b \<le> t2))
   \<and> (CHR ''%'' \<notin> set (channel b) \<and> CHR ''%'' \<notin> set u \<longrightarrow>
        map bytes
          [Fprintf (''PRIVMSG '' @ channel b @ '' :/timeout '' @ u @ CRLF),
           Fprintf (''PRIVMSG '' @ channel b @ '' :Timed out user: '' @ u @ CRLF),
           Fprintf (''PRIVMSG '' @ channel b @ '' :/ban '' @ u @ CRLF),
           Fprintf (''PRIVMSG '' @ channel b @ '' :Banned user: '' @ u @ CRLF),
           Fprintf (''PRIVMSG '' @ channel b @ '' :/unban '' @ u @ CRLF),
           Fprintf (''PRIVMSG '' @ channel b @ '' :Unbanned user: '' @ u @ CRLF)]
        = [Some (''PRIVMSG '' @ channel b @ '' :/timeout '' @ u @ CRLF),
           Some (''PRIVMSG '' @ channel b @ '' :Timed out user: '' @ u @ CRLF),
           Some (''PRIVMSG '' @ channel b @ '' :/ban '' @ u @ CRLF),
           Some (''PRIVMSG '' @ channel b @ '' :Banned user: '' @ u @ CRLF),
           Some (''PRIVMSG '' @ channel b @ '' :/unban '' @ u @ CRLF),
           Some (''PRIVMSG '' @ channel b @ '' :Unbanned user: '' @ u @ CRLF)])"
proof -
  have refused: "isModerator b u \<longrightarrow> timeout b u = b \<and> ban b u = b \<and> unban b u = b"
    by (simp add: timeout_def ban_def unban_def)
  have sent: "\<not> isModerator b u \<longrightarrow>
        (\<exists>t1 t2. conn (timeout b u)
                    = conn b @ [(t1, Fprintf (''PRIVMSG '' @ channel b @ '' :/timeout '' @ u @ CRLF)),
                                (t2, Fprintf (''PRIVMSG '' @ channel b @ '' :Timed out user: '' @ u @ CRLF))]
                \<and> lastMsg b + maxMsgTime b \<le> t1 \<and> t1 + maxMsgTime b \<le> t2)
      \<and> (\<exists>t1 t2. conn (ban b u)
                    = conn b @ [(t1, Fprintf (''PRIVMSG '' @ channel b @ '' :/ban '' @ u @ CRLF)),
                                (t2, Fprintf (''PRIVMSG '' @ channel b @ '' :Banned user: '' @ u @ CRLF))]
                \<and> lastMsg b + maxMsgTime b \<le> t1 \<and> t1 + maxMsgTime b \<le> t2)
      \<and> (\<exists>t1 t2. conn (unban b u)
                    = conn b @ [(t1, Fprintf (''PRIVMSG '' @ channel b @ '' :/unban '' @ u @ CRLF)),
                                (t2, Fprintf (''PRIVMSG '' @ channel b @ '' :Unbanned user: '' @ u @ CRLF))]
                \<and> lastMsg b + maxMsgTime b \<le> t1 \<and> t1 + maxMsgTime b \<le> t2)"
  proof
    assume no: "\<not> isModerator b u"
    have "\<exists>t1 t2. conn (timeout b u)
                    = conn b @ [(t1, Fprintf (''PRIVMSG '' @ channel b @ '' :/timeout '' @ u @ CRLF)),
                                (t2, Fprintf (''PRIVMSG '' @ channel b @ '' :Timed out user: '' @ u @ CRLF))]
                \<and> lastMsg b + maxMsgTime b \<le> t1 \<and> t1 + maxMsgTime b \<le> t2"
      using no Message_twice [of "''/timeout '' @ u" "''Timed out user: '' @ u" b]
      by (simp add: timeout_def privmsg_def)
    moreover have "\<exists>t1 t2. conn (ban b u)
                    = conn b @ [(t1, Fprintf (''PRIVMSG '' @ channel b @ '' :/ban '' @ u @ CRLF)),
                                (t2, Fprintf (''PRIVMSG '' @ channel b @ '' :Banned user: '' @ u @ CRLF))]
                \<and> lastMsg b + maxMsgTime b \<le> t1 \<and> t1 + maxMsgTime b \<le> t2"
      using no Message_twice [of "''/ban '' @ u" "''Banned user: '' @ u" b]
      by (simp add: ban_def privmsg_def)
    moreover have "\<exists>t1 t2. conn (unban b u)
                    = conn b @ [(t1, Fprintf (''PRIVMSG '' @ channel b @ '' :/unban '' @ u @ CRLF)),
                                (t2, Fprintf (''PRIVMSG '' @ channel b @ '' :Unbanned user: '' @ u @ CRLF))]
                \<and> lastMsg b + maxMsgTime b \<le> t1 \<and> t1 + maxMsgTime b \<le> t2"
      using no Message_twice [of "''/unban '' @ u" "''Unbanned user: '' @ u" b]
      by (simp add: unban_def privmsg_def)
    ultimately show "(\<exists>t1 t2. conn (timeout b u)
                    = conn b @ [(t1, Fprintf (''PRIVMSG '' @ channel b @ '' :/timeout '' @ u @ CRLF)),
                                (t2, Fprintf (''PRIVMSG '' @ channel b @ '' :Timed out user: '' @ u @ CRLF))]
                \<and> lastMsg b + maxMsgTime b \<le> t1 \<and> t1 + maxMsgTime b \<le> t2)
      \<and> (\<exists>t1 t2. conn (ban b u)
                    = conn b @ [(t1, Fprintf (''PRIVMSG '' @ channel b @ '' :/ban '' @ u @ CRLF)),
                                (t2, Fprintf (''PRIVMSG '' @ channel b @ '' :Banned user: '' @ u @ CRLF))]
                \<and> lastMsg b + maxMsgTime b \<le> t1 \<and> t1 + maxMsgTime b \<le> t2)
      \<and> (\<exists>t1 t2. conn (unban b u)
                    = conn b @ [(t1, Fprintf (''PRIVMSG '' @ channel b @ '' :/unban '' @ u @ CRLF)),
                                (t2, Fprintf (''PRIVMSG '' @ channel b @ '' :Unbanned user: '' @ u @ CRLF))]
                \<and> lastMsg b + maxMsgTime b \<le> t1 \<and> t1 + maxMsgTime b \<le> t2)"
      by (intro conjI)
  qed
  have onwire: "CHR ''%'' \<notin> set (channel b) \<and> CHR ''%'' \<notin> set u \<longrightarrow>
        map bytes
          [Fprintf (''PRIVMSG '' @ channel b @ '' :/timeout '' @ u @ CRLF),
           Fprintf (''PRIVMSG '' @ channel b @ '' :Timed out user: '' @ u @ CRLF),
           Fprintf (''PRIVMSG '' @ channel b @ '' :/ban '' @ u @ CRLF),
           Fprintf (''PRIVMSG '' @ channel b @ '' :Banned user: '' @ u @ CRLF),
           Fprintf (''PRIVMSG '' @ channel b @ '' :/unban '' @ u @ CRLF),
           Fprintf (''PRIVMSG '' @ channel b @ '' :Unbanned user: '' @ u @ CRLF)]
        = [Some (''PRIVMSG '' @ channel b @ '' :/timeout '' @ u @ CRLF),
           Some (''PRIVMSG '' @ channel b @ '' :Timed out user: '' @ u @ CRLF),
           Some (''PRIVMSG '' @ channel b @ '' :/ban '' @ u @ CRLF),
           Some (''PRIVMSG '' @ channel b @ '' :Banned user: '' @ u @ CRLF),
           Some (''PRIVMSG '' @ channel b @ '' :/unban '' @ u @ CRLF),
           Some (''PRIVMSG '' @ channel b @ '' :Unbanned user: '' @ u @ CRLF)]"
    by (simp add: CRLF_def)
  from refused sent onwire show ?thesis by (intro conjI)
qed

text \<open>
  C6, at the default bot: the owner \<open>ajs94\<close> is refused, the user \<open>troll\<close> is
  timed out.
\<close>

theorem punishments_witness:
  "isModerator (defaultBot 1000) ''ajs94''
   \<and> timeout (defaultBot 1000) ''ajs94'' = defaultBot 1000
   \<and> ban (defaultBot 1000) ''ajs94'' = defaultBot 1000
   \<and> unban (defaultBot 1000) ''ajs94'' = defaultBot 1000
   \<and> \<not> isModerator (defaultBot 1000) ''troll''
   \<and> CHR ''%'' \<notin> set (channel (defaultBot 1000)) \<and> CHR ''%'' \<notin> set ''troll''
   \<and> (\<exists>t1 t2. conn (timeout (defaultBot 1000) ''troll'')
                  = conn (defaultBot 1000)
                    @ [(t1, Fprintf (''PRIVMSG '' @ channel (defaultBot 1000) @ '' :/timeout '' @ ''troll'' @ CRLF)),
                       (t2, Fprintf (''PRIVMSG '' @ channel (defaultBot 1000) @ '' :Timed out user: '' @ ''troll'' @ CRLF))]
              \<and> lastMsg (defaultBot 1000) + maxMsgTime (defaultBot 1000) \<le> t1
              \<and> t1 + maxMsgTime (defaultBot 1000) \<le> t2)
   \<and> bytes (Fprintf (''PRIVMSG '' @ channel (defaultBot 1000) @ '' :/timeout '' @ ''troll'' @ CRLF))
       = Some (''PRIVMSG #ajs94 :/timeout troll'' @ CRLF)"
proof -
  have yes: "isModerator (defaultBot 1000) ''ajs94''"
    by (simp add: isModerator_def defaultBot_def mainBot_def NewBot_def)
  have no: "\<not> isModerator (defaultBot 1000) ''troll''"
    by (simp add: isModerator_def defaultBot_def mainBot_def NewBot_def)
  have ch: "channel (defaultBot 1000) = ''#ajs94''"
    by (simp add: defaultBot_def mainBot_def NewBot_def)
  have pc: "CHR ''%'' \<notin> set (channel (defaultBot 1000)) \<and> CHR ''%'' \<notin> set ''troll''"
    by (simp add: ch)
  note owner = punishments [of "defaultBot 1000" "''ajs94''"]
  note troll = punishments [of "defaultBot 1000" "''troll''"]
  from mp [OF conjunct1 [OF owner] yes]
  have r: "timeout (defaultBot 1000) ''ajs94'' = defaultBot 1000
           \<and> ban (defaultBot 1000) ''ajs94'' = defaultBot 1000
           \<and> unban (defaultBot 1000) ''ajs94'' = defaultBot 1000" .
  from mp [OF conjunct1 [OF conjunct2 [OF troll]] no]
  have s: "\<exists>t1 t2. conn (timeout (defaultBot 1000) ''troll'')
                  = conn (defaultBot 1000)
                    @ [(t1, Fprintf (''PRIVMSG '' @ channel (defaultBot 1000) @ '' :/timeout '' @ ''troll'' @ CRLF)),
                       (t2, Fprintf (''PRIVMSG '' @ channel (defaultBot 1000) @ '' :Timed out user: '' @ ''troll'' @ CRLF))]
              \<and> lastMsg (defaultBot 1000) + maxMsgTime (defaultBot 1000) \<le> t1
              \<and> t1 + maxMsgTime (defaultBot 1000) \<le> t2"
    by (rule conjunct1)
  from mp [OF conjunct2 [OF conjunct2 [OF troll]] pc]
  have w: "bytes (Fprintf (''PRIVMSG '' @ channel (defaultBot 1000) @ '' :/timeout '' @ ''troll'' @ CRLF))
       = Some (''PRIVMSG #ajs94 :/timeout troll'' @ CRLF)"
    by (simp add: ch)
  from yes r no pc s w show ?thesis by - (elim conjE, intro conjI; assumption)
qed

subsection \<open>Commands of users who are not moderators\<close>

text \<open>
  C7. When the issuer is not in \<open>mods\<close> and is not the owner, \<open>ParseCommand\<close> does
  not panic, whatever the command is, and adds exactly one write to the connection, made
  by \<open>Message\<close> under the cooldown: the chat line \<open>PRIVMSG\<close>, channel, \<open>:\<close> and
  \<open>You are not a mod\<close> followed by the issuer's name. No directive is written and no
  punishment function is called. When neither the channel nor the issuer's name has a
  \<open>%\<close>, this line is the bytes on the connection.
\<close>

theorem non_moderator_rejected:
  assumes "mods b user \<noteq> Some True" and "user \<noteq> Replace1 (channel b) ''#'' []"
  shows "(\<exists>t b'. ParseCommand b user theCommand = Inr b'
            \<and> conn b' = conn b
                 @ [(t, Fprintf (''PRIVMSG '' @ channel b @ '' :You are not a mod '' @ user @ CRLF))]
            \<and> lastMsg b + maxMsgTime b \<le> t)
       \<and> (CHR ''%'' \<notin> set (channel b) \<and> CHR ''%'' \<notin> set user \<longrightarrow>
            bytes (Fprintf (''PRIVMSG '' @ channel b @ '' :You are not a mod '' @ user @ CRLF))
              = Some (''PRIVMSG '' @ channel b @ '' :You are not a mod '' @ user @ CRLF))"
proof -
  from assms have "\<not> isModerator b user" by (simp add: isModerator_def)
  then have "ParseCommand b user theCommand = Inr (Message b (''You are not a mod '' @ user))"
    by (simp add: ParseCommand_def)
  moreover from Message_conn [of "''You are not a mod '' @ user" b]
  obtain t where "conn (Message b (''You are not a mod '' @ user))
                    = conn b @ [(t, Fprintf (''PRIVMSG '' @ channel b @ '' :You are not a mod '' @ user @ CRLF))]"
     "lastMsg b + maxMsgTime b \<le> t"
    by (auto simp: privmsg_def)
  ultimately have "\<exists>t b'. ParseCommand b user theCommand = Inr b'
            \<and> conn b' = conn b
                 @ [(t, Fprintf (''PRIVMSG '' @ channel b @ '' :You are not a mod '' @ user @ CRLF))]
            \<and> lastMsg b + maxMsgTime b \<le> t"
    by blast
  moreover have "CHR ''%'' \<notin> set (channel b) \<and> CHR ''%'' \<notin> set user \<longrightarrow>
            bytes (Fprintf (''PRIVMSG '' @ channel b @ '' :You are not a mod '' @ user @ CRLF))
              = Some (''PRIVMSG '' @ channel b @ '' :You are not a mod '' @ user @ CRLF)"
    by (simp add: CRLF_def)
  ultimately show ?thesis by (intro conjI)
qed

text \<open>C7, at the default bot: the user \<open>troll\<close> issues \<open>!ban ajs94\<close>.\<close>

theorem non_moderator_rejected_witness:
  "mods (defaultBot 1000) ''troll'' \<noteq> Some True
   \<and> ''troll'' \<noteq> Replace1 (channel (defaultBot 1000)) ''#'' []
   \<and> CHR ''%'' \<notin> set (channel (defaultBot 1000)) \<and> CHR ''%'' \<notin> set ''troll''
   \<and> (\<exists>t b'. ParseCommand (defaultBot 1000) ''troll'' ''!ban ajs94'' = Inr b'
           \<and> conn b' = conn (defaultBot 1000)
                @ [(t, Fprintf (''PRIVMSG '' @ channel (defaultBot 1000) @ '' :You are not a mod '' @ ''troll'' @ CRLF))]
           \<and> lastMsg (defaultBot 1000) + maxMsgTime (defaultBot 1000) \<le> t)
   \<and> bytes (Fprintf (''PRIVMSG '' @ channel (defaultBot 1000) @ '' :You are not a mod '' @ ''troll'' @ CRLF))
       = Some (''PRIVMSG #ajs94 :You are not a mod troll'' @ CRLF)"
proof -
  have ch: "channel (defaultBot 1000) = ''#ajs94''"
    by (simp add: defaultBot_def mainBot_def NewBot_def)
  have h1: "mods (defaultBot 1000) ''troll'' \<noteq> Some True"
    by (simp add: defaultBot_def mainBot_def NewBot_def)
  have h2: "''troll'' \<noteq> Replace1 (channel (defaultBot 1000)) ''#'' []"
    by (simp add: ch)
  have pc: "CHR ''%'' \<notin> set (channel (defaultBot 1000)) \<and> CHR ''%'' \<notin> set ''troll''"
    by (simp add: ch)
  note t = non_moderator_rejected [OF h1 h2, of "''!ban ajs94''"]
  from mp [OF conjunct2 [OF t] pc]
  have w: "bytes (Fprintf (''PRIVMSG '' @ channel (defaultBot 1000) @ '' :You are not a mod '' @ ''troll'' @ CRLF))
       = Some (''PRIVMSG #ajs94 :You are not a mod troll'' @ CRLF)"
    by (simp add: ch)
  from h1 h2 pc conjunct1 [OF t] w show ?thesis
    by - (elim conjE, intro conjI; assumption)
qed

subsection \<open>Several goroutines: nothing is lost, nothing is written twice\<close>











text \<open>
  A goroutine that runs alone through the scheduler does what \<open>Message\<close> does.
\<close>

lemma lone_caller:
  "\<exists>sch. foldl sched_step (b, [Calling m]) sch = (Message b m, [Returned])"
proof (induction b m rule: Message.induct)
  case (1 b m)
  show ?case
  proof (cases "m = []")
    case True
    then have "foldl sched_step (b, [Calling m]) [Go 0] = (Message b m, [Returned])"
      by (simp add: Message_Nil)
    then show ?thesis by blast
  next
    case False
    show ?thesis
    proof (cases "lastMsg b + maxMsgTime b \<le> now b")
      case True
      with False have "foldl sched_step (b, [Calling m]) [Go 0, Go 0] = (Message b m, [Returned])"
        by (simp add: Message_ready)
      then show ?thesis by blast
    next
      case cool: False
      from 1 [OF False cool] obtain sch where
        s: "foldl sched_step (Sleep 5 b, [Calling m]) sch = (Message (Sleep 5 b) m, [Returned])"
        by blast
      have "foldl sched_step (b, [Calling m]) [Go 0, Pass 5, Go 0] = (Sleep 5 b, [Calling m])"
        using False cool by (simp add: Sleep_def)
      with s have "foldl sched_step (b, [Calling m]) ([Go 0, Pass 5, Go 0] @ sch)
          = (Message b m, [Returned])"
        using False cool by (simp only: foldl_append Message_wait [OF False cool])
      then show ?thesis by blast
    qed
  qed
qed

subsection \<open>The cooldown\<close>






end
